theory Spec2Isabelle
  imports Main "HOL-Library.Sublist"
begin

section \<open>JavaScript values used by the page scripts\<close>

text \<open>
  The scripts of \<^verbatim>\<open>static/js/auth.js\<close> read form fields, browser storage and parsed
  JSON bodies. A JSON body is a \<open>js_value\<close>; numbers are modelled for whole values and
  \<open>NaN\<close> (the values the claims use), strings are UTF-8 byte strings.
\<close>

datatype js_number = NaN | Whole int

datatype js_value =
    JUndefined
  | JNull
  | JBool bool
  | JNum js_number
  | JStr string
  | JArray "js_value list"
  | JObject "(string \<times> js_value) list"

text \<open>Decimal rendering of a whole number, as \<^verbatim>\<open>String(n)\<close> gives it.\<close>

definition digit_char :: "nat \<Rightarrow> char" where
  "digit_char d = ''0123456789'' ! (d mod 10)"

function show_nat :: "nat \<Rightarrow> string" where
  "show_nat n = (if n < 10 then [digit_char n] else show_nat (n div 10) @ [digit_char n])"
  by pat_completeness auto
termination
  by (relation "measure id") auto

declare show_nat.simps [simp del]

definition show_int :: "int \<Rightarrow> string" where
  "show_int i = (if i < 0 then ''-'' @ show_nat (nat (- i)) else show_nat (nat i))"

definition show_number :: "js_number \<Rightarrow> string" where
  "show_number n = (case n of NaN \<Rightarrow> ''NaN'' | Whole i \<Rightarrow> show_int i)"

text \<open>
  \<^verbatim>\<open>String(v)\<close>, the conversion a template literal, \<^verbatim>\<open>localStorage.setItem\<close> and
  \<^verbatim>\<open>textContent\<close> apply: an array joins its elements with commas (\<^verbatim>\<open>null\<close> and
  \<^verbatim>\<open>undefined\<close> elements as the empty string), a plain object is
  \<^verbatim>\<open>[object Object]\<close>.
\<close>

fun to_string :: "js_value \<Rightarrow> string" and join_elems :: "js_value list \<Rightarrow> string" where
  "to_string JUndefined = ''undefined''"
| "to_string JNull = ''null''"
| "to_string (JBool b) = (if b then ''true'' else ''false'')"
| "to_string (JNum n) = show_number n"
| "to_string (JStr s) = s"
| "to_string (JArray xs) = join_elems xs"
| "to_string (JObject kvs) = ''[object Object]''"
| "join_elems [] = []"
| "join_elems (x # xs) =
     (case x of JUndefined \<Rightarrow> [] | JNull \<Rightarrow> [] | _ \<Rightarrow> to_string x)
     @ (case xs of [] \<Rightarrow> [] | _ \<Rightarrow> '','' @ join_elems xs)"

text \<open>Truthiness, as \<^verbatim>\<open>if (v)\<close>, \<^verbatim>\<open>!v\<close> and \<^verbatim>\<open>v || w\<close> test it.\<close>

fun truthy :: "js_value \<Rightarrow> bool" where
  "truthy JUndefined = False"
| "truthy JNull = False"
| "truthy (JBool b) = b"
| "truthy (JNum NaN) = False"
| "truthy (JNum (Whole i)) = (i \<noteq> 0)"
| "truthy (JStr s) = (s \<noteq> [])"
| "truthy (JArray xs) = True"
| "truthy (JObject kvs) = True"

text \<open>\<^verbatim>\<open>a || b\<close>.\<close>

definition js_or :: "js_value \<Rightarrow> js_value \<Rightarrow> js_value" where
  "js_or a b = (if truthy a then a else b)"

text \<open>
  Property read \<^verbatim>\<open>v.k\<close> for the keys the scripts read (\<^verbatim>\<open>detail\<close>, \<^verbatim>\<open>access_token\<close>,
  \<^verbatim>\<open>token_type\<close>, \<^verbatim>\<open>cheque_number\<close>): on \<^verbatim>\<open>null\<close> and \<^verbatim>\<open>undefined\<close> it throws a
  TypeError (\<open>None\<close>); on an object it is the stored value or \<^verbatim>\<open>undefined\<close>; on any
  other value these keys are \<^verbatim>\<open>undefined\<close>.
\<close>

fun get_prop :: "js_value \<Rightarrow> string \<Rightarrow> js_value option" where
  "get_prop JUndefined k = None"
| "get_prop JNull k = None"
| "get_prop (JObject kvs) k = Some (case map_of kvs k of None \<Rightarrow> JUndefined | Some v \<Rightarrow> v)"
| "get_prop v k = Some JUndefined"

text \<open>\<^verbatim>\<open>s.startsWith(p)\<close>.\<close>

fun startsWith :: "string \<Rightarrow> string \<Rightarrow> bool" where
  "startsWith s [] = True"
| "startsWith [] (p # ps) = False"
| "startsWith (c # cs) (p # ps) = (c = p \<and> startsWith cs ps)"

section \<open>Session storage and header maps\<close>

text \<open>
  \<^verbatim>\<open>localStorage\<close> maps keys to strings; \<^verbatim>\<open>getItem\<close> of a missing key is \<^verbatim>\<open>null\<close>
  (\<open>None\<close>). A header object maps header names to strings; a missing name reads as
  \<^verbatim>\<open>undefined\<close> (\<open>None\<close>).
\<close>

type_synonym storage = "string \<rightharpoonup> string"
type_synonym header_map = "string \<rightharpoonup> string"

definition getItem :: "storage \<Rightarrow> string \<Rightarrow> string option" where
  "getItem st k = st k"

definition setItem :: "storage \<Rightarrow> string \<Rightarrow> js_value \<Rightarrow> storage" where
  "setItem st k v = st(k \<mapsto> to_string v)"

definition removeItem :: "storage \<Rightarrow> string \<Rightarrow> storage" where
  "removeItem st k = st(k := None)"

text \<open>Truthiness of a string-or-missing value: missing and the empty string are falsy.\<close>

definition truthy_str :: "string option \<Rightarrow> bool" where
  "truthy_str v = (case v of None \<Rightarrow> False | Some s \<Rightarrow> s \<noteq> [])"

text \<open>The template literal \<^verbatim>\<open>`${tokenType} ${token}`\<close>; \<^verbatim>\<open>null\<close> renders as \<^verbatim>\<open>null\<close>.\<close>

definition show_item :: "string option \<Rightarrow> string" where
  "show_item v = (case v of None \<Rightarrow> ''null'' | Some s \<Rightarrow> s)"

definition auth_header :: "string option \<Rightarrow> string option \<Rightarrow> string" where
  "auth_header tokenType token = show_item tokenType @ '' '' @ show_item token"

section \<open>The two authentication injection paths\<close>

text \<open>The \<^verbatim>\<open>options\<close> object of a \<^verbatim>\<open>fetch\<close> call; a missing field is \<open>None\<close>.\<close>

record fetch_options =
  request_method :: "string option"
  headers :: "header_map option"
  body :: "js_value option"

definition no_options :: fetch_options where
  "no_options = \<lparr>request_method = None, headers = None, body = None\<rparr>"

text \<open>
  The wrapper installed over \<^verbatim>\<open>window.fetch\<close>. The result is the \<^verbatim>\<open>options\<close> object that
  reaches \<^verbatim>\<open>originalFetch\<close>; the wrapper writes into the caller's own objects, so the
  result is also what the caller's \<^verbatim>\<open>options\<close> (and the header object it holds) are
  afterwards.
\<close>

definition window_fetch :: "storage \<Rightarrow> string \<Rightarrow> fetch_options \<Rightarrow> fetch_options" where
  "window_fetch st url options =
     (if startsWith url ''/api/'' then
        (let token = getItem st ''access_token'';
             tokenType = getItem st ''token_type''
         in if truthy_str token \<and> truthy_str tokenType then
              (let hs = (case headers options of None \<Rightarrow> Map.empty | Some h \<Rightarrow> h)
               in if \<not> truthy_str (hs ''Authorization'')
                  then options\<lparr>headers := Some (hs(''Authorization'' \<mapsto> auth_header tokenType token))\<rparr>
                  else options\<lparr>headers := Some hs\<rparr>)
            else options)
      else options)"

text \<open>
  The \<^verbatim>\<open>htmx:configRequest\<close> listener: \<^verbatim>\<open>evt.detail.path\<close> and \<^verbatim>\<open>evt.detail.headers\<close>
  in, the header object after the listener out.
\<close>

definition htmx_configRequest :: "storage \<Rightarrow> string \<Rightarrow> header_map \<Rightarrow> header_map" where
  "htmx_configRequest st path hs =
     (if startsWith path ''/api/'' then
        (let token = getItem st ''access_token'';
             tokenType = getItem st ''token_type''
         in if truthy_str token \<and> truthy_str tokenType
            then hs(''Authorization'' \<mapsto> auth_header tokenType token)
            else hs)
      else hs)"

section \<open>The page state the handlers act on\<close>

text \<open>
  An element carries the three properties the scripts touch. \<^verbatim>\<open>classList\<close> is a list
  without duplicates: \<^verbatim>\<open>add\<close> appends a class that is not there, \<^verbatim>\<open>remove\<close> drops it.
\<close>

record element =
  textContent :: string
  classList :: "string list"
  disabled :: bool

definition classList_add :: "string \<Rightarrow> 'a element_scheme \<Rightarrow> 'a element_scheme" where
  "classList_add c e =
     (if c \<in> set (classList e) then e else e\<lparr>classList := classList e @ [c]\<rparr>)"

definition classList_remove :: "string \<Rightarrow> 'a element_scheme \<Rightarrow> 'a element_scheme" where
  "classList_remove c e = e\<lparr>classList := filter (\<lambda>x. x \<noteq> c) (classList e)\<rparr>"

text \<open>What a \<^verbatim>\<open>setTimeout\<close> callback of the scripts does when it fires.\<close>

datatype timer_action = Navigate string | Reload | FadeNotification nat

text \<open>
  What the awaited \<^verbatim>\<open>fetch\<close> and \<^verbatim>\<open>response.json()\<close> deliver: the promise of
  \<^verbatim>\<open>fetch\<close> rejects (\<open>NetworkError\<close>), or a response arrives with its \<^verbatim>\<open>ok\<close> flag and
  its body, \<open>None\<close> when the body is not JSON and \<^verbatim>\<open>response.json()\<close> rejects.
\<close>

datatype fetch_outcome = NetworkError | Response bool "js_value option"

text \<open>
  The page: browser storage, the strings assigned to \<^verbatim>\<open>document.cookie\<close> and the timers
  set (both oldest first), the target assigned to \<^verbatim>\<open>window.location.href\<close>, the tags
  passed to \<^verbatim>\<open>console.error\<close>, and the elements the scripts look up, \<open>None\<close> when the
  document has no such element. \<open>api_headers\<close> is the \<^verbatim>\<open>headers\<close> object the second
  \<^verbatim>\<open>DOMContentLoaded\<close> listener builds once and every form handler passes on.
  \<open>markup_keeps_button\<close> is the document's HTML parser as far as the notification banner
  needs it: whether, with this message interpolated, the banner's markup still yields
  its close button.
\<close>

record page =
  localStorage :: storage
  cookieWrites :: "string list"
  location_href :: "string option"
  timers :: "(nat \<times> timer_action) list"
  console_errors :: "string list"
  notifications :: "(string \<times> string) list option"
  loginError :: "element option"
  registerError :: "element option"
  registerSuccess :: "element option"
  submitButton :: "element option"
  depositResult :: "string option"
  formResets :: "string list"
  api_headers :: header_map
  markup_keeps_button :: "string \<Rightarrow> bool"

definition clear_message :: "element \<Rightarrow> element" where
  "clear_message e = classList_add ''hidden'' (e\<lparr>textContent := []\<rparr>)"

definition show_message :: "string \<Rightarrow> element \<Rightarrow> element" where
  "show_message msg e = classList_remove ''hidden'' (e\<lparr>textContent := msg\<rparr>)"

definition console_error :: "string \<Rightarrow> page \<Rightarrow> page" where
  "console_error tag p = p\<lparr>console_errors := console_errors p @ [tag]\<rparr>"

definition setTimeout :: "timer_action \<Rightarrow> nat \<Rightarrow> page \<Rightarrow> page" where
  "setTimeout a ms p = p\<lparr>timers := timers p @ [(ms, a)]\<rparr>"

text \<open>A form value: \<^verbatim>\<open>formData.get\<close> gives a string, or \<^verbatim>\<open>null\<close> for a missing field.\<close>

definition form_value :: "string option \<Rightarrow> js_value" where
  "form_value v = (case v of None \<Rightarrow> JNull | Some s \<Rightarrow> JStr s)"

definition json_headers :: header_map where
  "json_headers = [''Content-Type'' \<mapsto> ''application/json'']"

section \<open>Login, registration and logout\<close>

text \<open>
  An \<^verbatim>\<open>async\<close> handler runs in two parts: \<open>_start\<close> is everything up to the call of
  \<^verbatim>\<open>fetch\<close> (the page at that moment and the request that goes out, through the wrapper
  above), \<open>_resume\<close> is the continuation once the awaited call has settled. The body of a
  request is the value that \<^verbatim>\<open>JSON.stringify\<close> serialises.
\<close>

definition loginForm_start ::
  "string option \<Rightarrow> string option \<Rightarrow> string option \<Rightarrow> page \<Rightarrow> page \<times> string \<times> fetch_options" where
  "loginForm_start username password remember_me p =
     (let rememberMe = (remember_me = Some ''on'');
          p1 = p\<lparr>loginError := map_option clear_message (loginError p)\<rparr>
      in (p1, ''/auth/login'',
          window_fetch (localStorage p1) ''/auth/login''
            \<lparr>request_method = Some ''POST'', headers = Some json_headers,
             body = Some (JObject [(''username'', form_value username),
                                   (''password'', form_value password),
                                   (''remember_me'', JBool rememberMe)])\<rparr>))"

definition loginForm_catch :: "page \<Rightarrow> page" where
  "loginForm_catch p =
     (let p1 = console_error ''Login error:'' p
      in p1\<lparr>loginError :=
              map_option (show_message ''An error occurred during login'') (loginError p1)\<rparr>)"

definition login_cookie :: "js_value \<Rightarrow> bool \<Rightarrow> string" where
  "login_cookie access_token rememberMe =
     ''access_token=Bearer '' @ to_string access_token @ ''; path=/; max-age=''
       @ (if rememberMe then ''604800'' else ''86400'') @ ''; SameSite=Lax''"

definition loginForm_resume :: "bool \<Rightarrow> page \<Rightarrow> fetch_outcome \<Rightarrow> page" where
  "loginForm_resume rememberMe p outcome =
     (case outcome of
        NetworkError \<Rightarrow> loginForm_catch p
      | Response ok parsed \<Rightarrow>
          (case parsed of
             None \<Rightarrow> loginForm_catch p
           | Some data \<Rightarrow>
               if ok then
                 (case get_prop data ''access_token'' of
                    None \<Rightarrow> loginForm_catch p
                  | Some access_token \<Rightarrow>
                      (case get_prop data ''token_type'' of
                         None \<Rightarrow> loginForm_catch p
                       | Some token_type \<Rightarrow>
                           p\<lparr>localStorage :=
                                setItem (setItem (localStorage p) ''access_token'' access_token)
                                  ''token_type'' token_type,
                             cookieWrites := cookieWrites p @ [login_cookie access_token rememberMe],
                             location_href := Some ''/dashboard''\<rparr>))
               else
                 (case loginError p of
                    None \<Rightarrow> p
                  | Some e \<Rightarrow>
                      (case get_prop data ''detail'' of
                         None \<Rightarrow> loginForm_catch p
                       | Some detail \<Rightarrow>
                           p\<lparr>loginError :=
                                Some (show_message
                                       (to_string (js_or detail (JStr ''Login failed''))) e)\<rparr>))))"

definition loginForm_submit ::
  "string option \<Rightarrow> string option \<Rightarrow> string option \<Rightarrow> page \<Rightarrow> fetch_outcome \<Rightarrow> page" where
  "loginForm_submit username password remember_me p outcome =
     loginForm_resume (remember_me = Some ''on'')
       (fst (loginForm_start username password remember_me p)) outcome"

text \<open>Registration: \<open>None\<close> as the request means that no call of \<^verbatim>\<open>fetch\<close> was made.\<close>

definition registerForm_start ::
  "string option \<Rightarrow> string option \<Rightarrow> string option \<Rightarrow> page
     \<Rightarrow> page \<times> (string \<times> fetch_options) option" where
  "registerForm_start username password passwordConfirm p =
     (let p1 = p\<lparr>registerError := map_option clear_message (registerError p)\<rparr>
      in if password \<noteq> passwordConfirm then
           (p1\<lparr>registerError :=
                 map_option (show_message ''Passwords do not match'') (registerError p1)\<rparr>,
            None)
         else
           (p1, Some (''/auth/register'',
              window_fetch (localStorage p1) ''/auth/register''
                \<lparr>request_method = Some ''POST'', headers = Some json_headers,
                 body = Some (JObject [(''username'', form_value username),
                                       (''password'', form_value password)])\<rparr>)))"

definition registerForm_catch :: "page \<Rightarrow> page" where
  "registerForm_catch p =
     (let p1 = console_error ''Registration error:'' p
      in p1\<lparr>registerError :=
              map_option (show_message ''An error occurred during registration'')
                (registerError p1)\<rparr>)"

definition registerForm_resume :: "page \<Rightarrow> fetch_outcome \<Rightarrow> page" where
  "registerForm_resume p outcome =
     (case outcome of
        NetworkError \<Rightarrow> registerForm_catch p
      | Response ok parsed \<Rightarrow>
          (case parsed of
             None \<Rightarrow> registerForm_catch p
           | Some data \<Rightarrow>
               if ok then
                 setTimeout (Navigate ''/login'') 2000
                   (p\<lparr>registerSuccess :=
                        map_option
                          (show_message ''Registration successful! Redirecting to login...'')
                          (registerSuccess p)\<rparr>)
               else
                 (case registerError p of
                    None \<Rightarrow> p
                  | Some e \<Rightarrow>
                      (case get_prop data ''detail'' of
                         None \<Rightarrow> registerForm_catch p
                       | Some detail \<Rightarrow>
                           p\<lparr>registerError :=
                                Some (show_message
                                       (to_string (js_or detail (JStr ''Registration failed''))) e)\<rparr>))))"

text \<open>Logout: the response is not inspected and its body is never read.\<close>

definition logoutButton_start :: "page \<Rightarrow> page \<times> string \<times> fetch_options" where
  "logoutButton_start p =
     (p, ''/auth/logout'',
      window_fetch (localStorage p) ''/auth/logout'' (no_options\<lparr>request_method := Some ''POST''\<rparr>))"

definition logout_cookie :: string where
  "logout_cookie = ''access_token=; path=/; expires=Thu, 01 Jan 1970 00:00:00 GMT''"

definition logoutButton_resume :: "page \<Rightarrow> fetch_outcome \<Rightarrow> page" where
  "logoutButton_resume p outcome =
     (case outcome of
        NetworkError \<Rightarrow> console_error ''Logout error:'' p
      | Response ok parsed \<Rightarrow>
          p\<lparr>localStorage := removeItem (removeItem (localStorage p) ''access_token'') ''token_type'',
            cookieWrites := cookieWrites p @ [logout_cookie],
            location_href := Some ''/login''\<rparr>)"

definition logoutButton_click :: "page \<Rightarrow> fetch_outcome \<Rightarrow> page" where
  "logoutButton_click p outcome = logoutButton_resume (fst (logoutButton_start p)) outcome"

section \<open>Helpers of the second listener\<close>

text \<open>The \<^verbatim>\<open>headers\<close> object built once when the document has loaded.\<close>

definition capture_headers :: "storage \<Rightarrow> header_map" where
  "capture_headers st =
     (let token = getItem st ''access_token'';
          tokenType = getItem st ''token_type''
      in if truthy_str token \<and> truthy_str tokenType
         then json_headers(''Authorization'' \<mapsto> auth_header tokenType token)
         else json_headers)"

text \<open>
  \<^verbatim>\<open>window.formatCurrency\<close> delegates to the platform's
  \<^verbatim>\<open>Intl.NumberFormat('en-US', {style: 'currency', currency: 'USD'})\<close>: a dollar sign,
  the whole part grouped by thousands with commas, two fraction digits, a leading minus
  for a negative amount.
\<close>

fun group_rev :: "string \<Rightarrow> string" where
  "group_rev (a # b # c # d # ds) = a # b # c # CHR '','' # group_rev (d # ds)"
| "group_rev ds = ds"

definition group_thousands :: "string \<Rightarrow> string" where
  "group_thousands ds = rev (group_rev (rev ds))"

definition formatCurrency :: "js_number \<Rightarrow> string" where
  "formatCurrency amount =
     (case amount of
        NaN \<Rightarrow> ''$NaN''
      | Whole i \<Rightarrow>
          (if i < 0 then ''-'' else []) @ ''$'' @ group_thousands (show_nat (nat \<bar>i\<bar>)) @ ''.00'')"

text \<open>
  A run of statements either completes or throws; either way it leaves a state behind.
\<close>

datatype 'a completion = Completed 'a | Thrown 'a

fun state_of :: "'a completion \<Rightarrow> 'a" where
  "state_of (Completed s) = s"
| "state_of (Thrown s) = s"

text \<open>
  \<^verbatim>\<open>window.showNotification\<close>: without a notification container nothing happens.
  Otherwise the banner's markup is built with the message interpolated into it (hence
  converted to a string) and the listener for the close control is attached to the first
  \<^verbatim>\<open>button\<close> the markup yields; when the message's own markup leaves none (say it opens
  a comment), \<^verbatim>\<open>querySelector\<close> gives \<^verbatim>\<open>null\<close> and the call throws a TypeError before
  the banner is appended. A message without \<^verbatim>\<open><\<close> is plain text and cannot do that;
  for any other message the page's HTML parser decides. When the button is there the
  banner with the message and its type is appended, and a timer is set that fades it
  after 5 seconds.
\<close>

definition close_button_found :: "page \<Rightarrow> string \<Rightarrow> bool" where
  "close_button_found p msg =
     (if CHR ''<'' \<in> set msg then markup_keeps_button p msg else True)"

definition showNotification :: "js_value \<Rightarrow> string \<Rightarrow> page \<Rightarrow> page completion" where
  "showNotification message type p =
     (case notifications p of
        None \<Rightarrow> Completed p
      | Some ns \<Rightarrow>
          if close_button_found p (to_string message) then
            Completed
              (setTimeout (FadeNotification (length ns)) 5000
                 (p\<lparr>notifications := Some (ns @ [(to_string message, type)])\<rparr>))
          else Thrown p)"

text \<open>
  A handler passes the shared \<^verbatim>\<open>headers\<close> object inside a fresh \<^verbatim>\<open>options\<close> object; the
  wrapper writes into that same header object, so the shared object afterwards is the
  header object of the request.
\<close>

definition shared_headers_after :: "fetch_options \<Rightarrow> page \<Rightarrow> page" where
  "shared_headers_after opts p =
     (case headers opts of None \<Rightarrow> p | Some h \<Rightarrow> p\<lparr>api_headers := h\<rparr>)"

section \<open>Transfer and deposit forms\<close>

text \<open>The amount is the number \<^verbatim>\<open>parseFloat\<close> returned for the form's amount field.\<close>

definition transferForm_start ::
  "string option \<Rightarrow> js_number \<Rightarrow> page \<Rightarrow> page \<times> string \<times> fetch_options" where
  "transferForm_start receiverUsername amount p =
     (let opts = window_fetch (localStorage p) ''/api/transfer''
                   \<lparr>request_method = Some ''POST'', headers = Some (api_headers p),
                    body = Some (JObject [(''receiver_username'', form_value receiverUsername),
                                          (''amount'', JNum amount)])\<rparr>
      in (shared_headers_after opts p, ''/api/transfer'', opts))"

text \<open>
  The body of the \<^verbatim>\<open>try\<close> block after the call of \<^verbatim>\<open>fetch\<close>, the \<^verbatim>\<open>catch\<close> block, and
  the two together: the state the handler leaves, whether it ends normally or by an
  exception thrown inside the \<^verbatim>\<open>catch\<close> block.
\<close>

definition transferForm_try :: "page \<Rightarrow> fetch_outcome \<Rightarrow> page completion" where
  "transferForm_try p outcome =
     (case outcome of
        NetworkError \<Rightarrow> Thrown p
      | Response ok parsed \<Rightarrow>
          (case parsed of
             None \<Rightarrow> Thrown p
           | Some data \<Rightarrow>
               if ok then
                 (case showNotification (JStr ''Transfer successful!'') ''success'' p of
                    Thrown q \<Rightarrow> Thrown q
                  | Completed p1 \<Rightarrow>
                      Completed
                        (setTimeout Reload 2000
                           (p1\<lparr>formResets := formResets p1 @ [''transfer-form'']\<rparr>)))
               else
                 (case get_prop data ''detail'' of
                    None \<Rightarrow> Thrown p
                  | Some detail \<Rightarrow>
                      showNotification (js_or detail (JStr ''Transfer failed'')) ''error'' p)))"

definition transferForm_catch :: "page \<Rightarrow> page completion" where
  "transferForm_catch p =
     showNotification (JStr ''An error occurred during transfer'') ''error''
       (console_error ''Transfer error:'' p)"

definition transferForm_resume :: "page \<Rightarrow> fetch_outcome \<Rightarrow> page" where
  "transferForm_resume p outcome =
     (case transferForm_try p outcome of
        Completed q \<Rightarrow> q
      | Thrown q \<Rightarrow> state_of (transferForm_catch q))"

text \<open>The markup assigned to the result container, whitespace as in the template.\<close>

definition nl :: string where
  "nl = [CHR 0x0A]"

definition indent :: "nat \<Rightarrow> string" where
  "indent n = replicate n CHR '' ''"

definition deposit_result_html :: "js_value \<Rightarrow> js_number \<Rightarrow> string" where
  \<open>deposit_result_html chequeNumber amount =
     nl @ indent 12 @ ''<div class="mt-4 p-4 border border-green-200 rounded-lg bg-green-50">''
     @ nl @ indent 14 @ ''<p class="text-green-700 mb-2">Deposit request created successfully!</p>''
     @ nl @ indent 14 @ ''<p class="text-gray-700 mb-2">Cheque Number: <strong>''
        @ to_string chequeNumber @ ''</strong></p>''
     @ nl @ indent 14 @ ''<p class="text-gray-700 mb-2">Amount: <strong>''
        @ formatCurrency amount @ ''</strong></p>''
     @ nl @ indent 14
        @ ''<p class="text-gray-700 mb-4">Your deposit is pending approval by an administrator.</p>''
     @ nl @ indent 14 @ ''<a href="/api/deposit/'' @ to_string chequeNumber
        @ ''/pdf" target="_blank" class="btn btn-primary">''
     @ nl @ indent 16 @ ''Download Cheque PDF''
     @ nl @ indent 14 @ ''</a>''
     @ nl @ indent 12 @ ''</div>''
     @ nl @ indent 10\<close>

text \<open>
  The text a browser shows for markup without entities: everything outside the tags.
  The flag says whether the scan is inside a tag.
\<close>

fun strip_tags :: "bool \<Rightarrow> string \<Rightarrow> string" where
  "strip_tags in_tag [] = []"
| "strip_tags in_tag (c # cs) =
     (if in_tag then (if c = CHR ''>'' then strip_tags False cs else strip_tags True cs)
      else (if c = CHR ''<'' then strip_tags True cs else c # strip_tags False cs))"

definition rendered_text :: "string \<Rightarrow> string" where
  "rendered_text html = strip_tags False html"

definition depositForm_start ::
  "js_number \<Rightarrow> page \<Rightarrow> page \<times> (string \<times> fetch_options) option" where
  "depositForm_start amount p =
     (case submitButton p of
        None \<Rightarrow> (p, None)
      | Some b \<Rightarrow>
          (let b1 = b\<lparr>disabled := True\<rparr>;
               b2 = classList_add ''bg-gray-400'' b1;
               b3 = classList_remove ''hover:bg-green-600'' (classList_remove ''bg-bank-success'' b2);
               b4 = b3\<lparr>textContent := ''Processing...''\<rparr>;
               p1 = p\<lparr>submitButton := Some b4\<rparr>;
               opts = window_fetch (localStorage p1) ''/api/deposit''
                        \<lparr>request_method = Some ''POST'', headers = Some (api_headers p1),
                         body = Some (JObject [(''amount'', JNum amount)])\<rparr>
           in (shared_headers_after opts p1, Some (''/api/deposit'', opts))))"

definition reenable_submit :: "element \<Rightarrow> element" where
  "reenable_submit b =
     (let b1 = b\<lparr>disabled := False\<rparr>;
          b2 = classList_remove ''bg-gray-400'' b1;
          b3 = classList_add ''hover:bg-green-600'' (classList_add ''bg-bank-success'' b2)
      in b3\<lparr>textContent := ''Request Deposit''\<rparr>)"

definition depositForm_try :: "js_number \<Rightarrow> page \<Rightarrow> fetch_outcome \<Rightarrow> page completion" where
  "depositForm_try amount p outcome =
     (case outcome of
        NetworkError \<Rightarrow> Thrown p
      | Response ok parsed \<Rightarrow>
          (case parsed of
             None \<Rightarrow> Thrown p
           | Some data \<Rightarrow>
               if ok then
                 (case showNotification (JStr ''Deposit request created successfully!'')
                         ''success'' p of
                    Thrown q \<Rightarrow> Thrown q
                  | Completed p1 \<Rightarrow>
                      (case get_prop data ''cheque_number'' of
                         None \<Rightarrow> Thrown p1
                       | Some chequeNumber \<Rightarrow>
                           (case depositResult p1 of
                              None \<Rightarrow> Thrown p1
                            | Some old \<Rightarrow>
                                Completed
                                  (setTimeout Reload 3000
                                     (p1\<lparr>depositResult :=
                                           Some (deposit_result_html chequeNumber amount),
                                         formResets := formResets p1 @ [''deposit-form'']\<rparr>)))))
               else
                 (case get_prop data ''detail'' of
                    None \<Rightarrow> Thrown p
                  | Some detail \<Rightarrow>
                      (case showNotification (js_or detail (JStr ''Deposit request failed''))
                              ''error'' p of
                         Thrown q \<Rightarrow> Thrown q
                       | Completed p1 \<Rightarrow>
                           Completed
                             (p1\<lparr>submitButton :=
                                   map_option reenable_submit (submitButton p1)\<rparr>)))))"

definition depositForm_catch :: "page \<Rightarrow> page completion" where
  "depositForm_catch p =
     (case showNotification (JStr ''An error occurred during deposit request'') ''error''
             (console_error ''Deposit error:'' p) of
        Thrown q \<Rightarrow> Thrown q
      | Completed p1 \<Rightarrow>
          Completed (p1\<lparr>submitButton := map_option reenable_submit (submitButton p1)\<rparr>))"

definition depositForm_resume :: "js_number \<Rightarrow> page \<Rightarrow> fetch_outcome \<Rightarrow> page" where
  "depositForm_resume amount p outcome =
     (case depositForm_try amount p outcome of
        Completed q \<Rightarrow> q
      | Thrown q \<Rightarrow> state_of (depositForm_catch q))"

definition depositForm_submit :: "js_number \<Rightarrow> page \<Rightarrow> fetch_outcome \<Rightarrow> page" where
  "depositForm_submit amount p outcome =
     (case depositForm_start amount p of
        (p1, None) \<Rightarrow> p1
      | (p1, Some request) \<Rightarrow> depositForm_resume amount p1 outcome)"

section \<open>Admin action buttons\<close>

text \<open>
  A button with its \<^verbatim>\<open>dataset\<close>: the resource id (\<^verbatim>\<open>undefined\<close> when the attribute is
  missing) and the action. The listener is attached to elements that carry the action
  attribute, so the action is always a string.
\<close>

record action_button = element +
  data_id :: "string option"
  data_action :: string

text \<open>
  \<^verbatim>\<open>s.trim()\<close> removes the white space and line terminators of ECMAScript from both
  ends. Strings are UTF-8 byte strings, so each of these characters is the byte sequence
  that encodes it: the six ASCII ones, then U+00A0, U+1680, U+2000 to U+200A, U+2028,
  U+2029, U+202F, U+205F, U+3000 and U+FEFF.
\<close>

definition white_space_code_points :: "int list" where
  "white_space_code_points =
     [0x09, 0x0A, 0x0B, 0x0C, 0x0D, 0x20, 0xA0, 0x1680,
      0x2000, 0x2001, 0x2002, 0x2003, 0x2004, 0x2005, 0x2006, 0x2007, 0x2008, 0x2009, 0x200A,
      0x2028, 0x2029, 0x202F, 0x205F, 0x3000, 0xFEFF]"

text \<open>UTF-8 of a code point below U+10000.\<close>

definition utf8 :: "int \<Rightarrow> string" where
  "utf8 cp =
     (if cp < 0x80 then [char_of cp]
      else if cp < 0x800 then [char_of (0xC0 + cp div 0x40), char_of (0x80 + cp mod 0x40)]
      else [char_of (0xE0 + cp div 0x1000), char_of (0x80 + cp div 0x40 mod 0x40),
            char_of (0x80 + cp mod 0x40)])"

definition white_space :: "string list" where
  "white_space =
     [[CHR 0x09], [CHR 0x0A], [CHR 0x0B], [CHR 0x0C], [CHR 0x0D], [CHR 0x20],
      [CHR 0xC2, CHR 0xA0], [CHR 0xE1, CHR 0x9A, CHR 0x80],
      [CHR 0xE2, CHR 0x80, CHR 0x80], [CHR 0xE2, CHR 0x80, CHR 0x81],
      [CHR 0xE2, CHR 0x80, CHR 0x82], [CHR 0xE2, CHR 0x80, CHR 0x83],
      [CHR 0xE2, CHR 0x80, CHR 0x84], [CHR 0xE2, CHR 0x80, CHR 0x85],
      [CHR 0xE2, CHR 0x80, CHR 0x86], [CHR 0xE2, CHR 0x80, CHR 0x87],
      [CHR 0xE2, CHR 0x80, CHR 0x88], [CHR 0xE2, CHR 0x80, CHR 0x89],
      [CHR 0xE2, CHR 0x80, CHR 0x8A], [CHR 0xE2, CHR 0x80, CHR 0xA8],
      [CHR 0xE2, CHR 0x80, CHR 0xA9], [CHR 0xE2, CHR 0x80, CHR 0xAF],
      [CHR 0xE2, CHR 0x81, CHR 0x9F], [CHR 0xE3, CHR 0x80, CHR 0x80],
      [CHR 0xEF, CHR 0xBB, CHR 0xBF]]"

text \<open>Removes from the front of \<open>s\<close>, as long as there is one, a sequence out of \<open>ws\<close>.\<close>

function strip_leading :: "string list \<Rightarrow> string \<Rightarrow> string" where
  "strip_leading ws s =
     (case find (\<lambda>w. w \<noteq> [] \<and> startsWith s w) ws of
        None \<Rightarrow> s
      | Some w \<Rightarrow> strip_leading ws (drop (length w) s))"
  by pat_completeness auto
termination
proof (relation "measure (\<lambda>(ws, s). length s)")
  show "wf (measure (\<lambda>(ws, s). length s))" by simp
next
  fix ws :: "string list" and s w :: string
  assume "find (\<lambda>w. w \<noteq> [] \<and> startsWith s w) ws = Some w"
  then have w: "w \<noteq> []" and sw: "startsWith s w"
    by (auto simp: find_Some_iff)
  from w sw have "s \<noteq> []" by (cases s; cases w) auto
  with w show "((ws, drop (length w) s), (ws, s)) \<in> measure (\<lambda>(ws, s). length s)"
    by simp
qed

declare strip_leading.simps [simp del]

definition trim :: "string \<Rightarrow> string" where
  "trim s = rev (strip_leading (map rev white_space) (rev (strip_leading white_space s)))"

definition show_data :: "string option \<Rightarrow> string" where
  "show_data v = (case v of None \<Rightarrow> ''undefined'' | Some s \<Rightarrow> s)"

text \<open>
  A click that goes through returns the values the continuation keeps
  (\<^verbatim>\<open>originalText\<close>, \<^verbatim>\<open>action\<close>) and the request; an ignored click returns \<open>None\<close>.
\<close>

definition depositButton_start ::
  "action_button \<Rightarrow> page
     \<Rightarrow> action_button \<times> page \<times> (string \<times> string \<times> string \<times> fetch_options) option" where
  "depositButton_start this p =
     (if disabled this then (this, p, None)
      else
        (let b1 = this\<lparr>disabled := True\<rparr>;
             originalText = trim (textContent b1);
             b2 = b1\<lparr>textContent := ''Processing...''\<rparr>;
             depositId = data_id b2;
             action = data_action b2;
             url = ''/api/admin/deposit/'' @ show_data depositId @ ''/status'';
             opts = window_fetch (localStorage p) url
                      \<lparr>request_method = Some ''POST'', headers = Some (api_headers p),
                       body = Some (JObject [(''status'', JStr action)])\<rparr>
         in (b2, shared_headers_after opts p, Some (originalText, action, url, opts))))"

definition depositButton_try ::
  "string \<Rightarrow> string \<Rightarrow> action_button \<Rightarrow> page \<Rightarrow> fetch_outcome
     \<Rightarrow> (action_button \<times> page) completion" where
  "depositButton_try originalText action this p outcome =
     (case outcome of
        NetworkError \<Rightarrow> Thrown (this, p)
      | Response ok parsed \<Rightarrow>
          (case parsed of
             None \<Rightarrow> Thrown (this, p)
           | Some data \<Rightarrow>
               if ok then
                 (case showNotification (JStr (''Deposit '' @ action @ '' successfully!''))
                         ''success'' p of
                    Thrown q \<Rightarrow> Thrown (this, q)
                  | Completed p1 \<Rightarrow> Completed (this, setTimeout Reload 2000 p1))
               else
                 (case get_prop data ''detail'' of
                    None \<Rightarrow> Thrown (this, p)
                  | Some detail \<Rightarrow>
                      (case showNotification
                              (js_or detail (JStr (''Failed to '' @ action @ '' deposit'')))
                              ''error'' p of
                         Thrown q \<Rightarrow> Thrown (this, q)
                       | Completed p1 \<Rightarrow>
                           Completed
                             (this\<lparr>disabled := False, textContent := originalText\<rparr>, p1)))))"

definition depositButton_catch ::
  "string \<Rightarrow> string \<Rightarrow> action_button \<Rightarrow> page \<Rightarrow> (action_button \<times> page) completion" where
  "depositButton_catch originalText action this p =
     (case showNotification (JStr (''An error occurred while '' @ action @ ''ing deposit''))
             ''error'' (console_error ''Deposit action error:'' p) of
        Thrown q \<Rightarrow> Thrown (this, q)
      | Completed p1 \<Rightarrow>
          Completed (this\<lparr>disabled := False, textContent := originalText\<rparr>, p1))"

definition depositButton_resume ::
  "string \<Rightarrow> string \<Rightarrow> action_button \<Rightarrow> page \<Rightarrow> fetch_outcome \<Rightarrow> action_button \<times> page" where
  "depositButton_resume originalText action this p outcome =
     (case depositButton_try originalText action this p outcome of
        Completed s \<Rightarrow> s
      | Thrown (b, q) \<Rightarrow> state_of (depositButton_catch originalText action b q))"

definition depositButton_click ::
  "action_button \<Rightarrow> page \<Rightarrow> fetch_outcome \<Rightarrow> action_button \<times> page" where
  "depositButton_click this p outcome =
     (case depositButton_start this p of
        (b, p1, None) \<Rightarrow> (b, p1)
      | (b, p1, Some (originalText, action, request)) \<Rightarrow>
          depositButton_resume originalText action b p1 outcome)"

definition withdrawalButton_start ::
  "action_button \<Rightarrow> page
     \<Rightarrow> action_button \<times> page \<times> (string \<times> string \<times> string \<times> fetch_options) option" where
  "withdrawalButton_start this p =
     (if disabled this then (this, p, None)
      else
        (let b1 = this\<lparr>disabled := True\<rparr>;
             originalText = trim (textContent b1);
             b2 = b1\<lparr>textContent := ''Processing...''\<rparr>;
             withdrawalId = data_id b2;
             action = data_action b2;
             url = ''/api/admin/withdraw/'' @ show_data withdrawalId @ ''/status'';
             opts = window_fetch (localStorage p) url
                      \<lparr>request_method = Some ''POST'', headers = Some (api_headers p),
                       body = Some (JObject [(''status'', JStr action)])\<rparr>
         in (b2, shared_headers_after opts p, Some (originalText, action, url, opts))))"

definition withdrawalButton_try ::
  "string \<Rightarrow> string \<Rightarrow> action_button \<Rightarrow> page \<Rightarrow> fetch_outcome
     \<Rightarrow> (action_button \<times> page) completion" where
  "withdrawalButton_try originalText action this p outcome =
     (case outcome of
        NetworkError \<Rightarrow> Thrown (this, p)
      | Response ok parsed \<Rightarrow>
          (case parsed of
             None \<Rightarrow> Thrown (this, p)
           | Some data \<Rightarrow>
               if ok then
                 (case showNotification (JStr (''Withdrawal '' @ action @ '' successfully!''))
                         ''success'' p of
                    Thrown q \<Rightarrow> Thrown (this, q)
                  | Completed p1 \<Rightarrow> Completed (this, setTimeout Reload 2000 p1))
               else
                 (case get_prop data ''detail'' of
                    None \<Rightarrow> Thrown (this, p)
                  | Some detail \<Rightarrow>
                      (case showNotification
                              (js_or detail (JStr (''Failed to '' @ action @ '' withdrawal'')))
                              ''error'' p of
                         Thrown q \<Rightarrow> Thrown (this, q)
                       | Completed p1 \<Rightarrow>
                           Completed
                             (this\<lparr>disabled := False, textContent := originalText\<rparr>, p1)))))"

definition withdrawalButton_catch ::
  "string \<Rightarrow> string \<Rightarrow> action_button \<Rightarrow> page \<Rightarrow> (action_button \<times> page) completion" where
  "withdrawalButton_catch originalText action this p =
     (case showNotification (JStr (''An error occurred while '' @ action @ ''ing withdrawal''))
             ''error'' (console_error ''Withdrawal action error:'' p) of
        Thrown q \<Rightarrow> Thrown (this, q)
      | Completed p1 \<Rightarrow>
          Completed (this\<lparr>disabled := False, textContent := originalText\<rparr>, p1))"

definition withdrawalButton_resume ::
  "string \<Rightarrow> string \<Rightarrow> action_button \<Rightarrow> page \<Rightarrow> fetch_outcome \<Rightarrow> action_button \<times> page" where
  "withdrawalButton_resume originalText action this p outcome =
     (case withdrawalButton_try originalText action this p outcome of
        Completed s \<Rightarrow> s
      | Thrown (b, q) \<Rightarrow> state_of (withdrawalButton_catch originalText action b q))"

definition withdrawalButton_click ::
  "action_button \<Rightarrow> page \<Rightarrow> fetch_outcome \<Rightarrow> action_button \<times> page" where
  "withdrawalButton_click this p outcome =
     (case withdrawalButton_start this p of
        (b, p1, None) \<Rightarrow> (b, p1)
      | (b, p1, Some (originalText, action, request)) \<Rightarrow>
          withdrawalButton_resume originalText action b p1 outcome)"

section \<open>Statement vocabulary and example pages\<close>

text \<open>
  The authentication rule in the words of the specification: a request to a path under
  \<^verbatim>\<open>/api/\<close> gets \<^verbatim>\<open><tokenType> <accessToken>\<close> from the session store when a session
  exists, unless the caller already supplied an \<^verbatim>\<open>Authorization\<close> header.
\<close>

definition spec_auth_headers :: "storage \<Rightarrow> string \<Rightarrow> header_map \<Rightarrow> header_map" where
  "spec_auth_headers st path hs =
     (if startsWith path ''/api/'' \<and> getItem st ''access_token'' \<noteq> None
         \<and> getItem st ''token_type'' \<noteq> None \<and> hs ''Authorization'' = None
      then hs(''Authorization'' \<mapsto>
             auth_header (getItem st ''token_type'') (getItem st ''access_token''))
      else hs)"

text \<open>The \<^verbatim>\<open>Authorization\<close> header of an \<^verbatim>\<open>options\<close> object, \<open>None\<close> when there is none.\<close>

definition authorization_of :: "fetch_options \<Rightarrow> string option" where
  "authorization_of opts = (case headers opts of None \<Rightarrow> None | Some h \<Rightarrow> h ''Authorization'')"

text \<open>
  A failure outcome: the call was rejected, the body could not be parsed, or the
  response is not \<^verbatim>\<open>ok\<close>.
\<close>

definition failed :: "fetch_outcome \<Rightarrow> bool" where
  "failed outcome =
     (case outcome of
        NetworkError \<Rightarrow> True
      | Response ok parsed \<Rightarrow> (case parsed of None \<Rightarrow> True | Some data \<Rightarrow> if ok then False else True))"

text \<open>The truthy \<^verbatim>\<open>detail\<close> of a parsed body, when it has one.\<close>

definition server_detail :: "fetch_outcome \<Rightarrow> js_value option" where
  "server_detail outcome =
     (case outcome of
        NetworkError \<Rightarrow> None
      | Response ok parsed \<Rightarrow>
          (case parsed of
             None \<Rightarrow> None
           | Some data \<Rightarrow>
               (case get_prop data ''detail'' of
                  None \<Rightarrow> None
                | Some d \<Rightarrow> if truthy d then Some d else None)))"

definition idle_submit :: element where
  "idle_submit = \<lparr>textContent = ''Request Deposit'',
                   classList = [''btn'', ''bg-bank-success'', ''hover:bg-green-600''],
                   disabled = False\<rparr>"

definition hidden_banner :: element where
  "hidden_banner = \<lparr>textContent = [], classList = [''hidden''], disabled = False\<rparr>"

text \<open>A page without a session, as the login and registration pages are.\<close>

definition anonymous_page :: page where
  "anonymous_page =
     \<lparr>localStorage = Map.empty, cookieWrites = [], location_href = None, timers = [],
      console_errors = [], notifications = Some [], loginError = Some hidden_banner,
      registerError = Some hidden_banner, registerSuccess = Some hidden_banner,
      submitButton = None, depositResult = None, formResets = [],
      api_headers = capture_headers Map.empty,
      markup_keeps_button = (\<lambda>msg. False)\<rparr>"

definition session_storage :: storage where
  "session_storage = [''access_token'' \<mapsto> ''abc'', ''token_type'' \<mapsto> ''Bearer'']"

text \<open>A page loaded while the session \<open>abc\<close> was stored.\<close>

definition session_page :: page where
  "session_page =
     \<lparr>localStorage = session_storage,
      cookieWrites = [], location_href = None, timers = [],
      console_errors = [], notifications = Some [], loginError = None,
      registerError = None, registerSuccess = None,
      submitButton = Some idle_submit, depositResult = Some [], formResets = [],
      api_headers = capture_headers session_storage,
      markup_keeps_button = (\<lambda>msg. False)\<rparr>"

text \<open>The same page after another tab has stored a new session.\<close>

definition stale_page :: page where
  "stale_page =
     session_page\<lparr>localStorage := [''access_token'' \<mapsto> ''xyz'', ''token_type'' \<mapsto> ''Bearer'']\<rparr>"

definition approve_button :: action_button where
  "approve_button =
     \<lparr>textContent = '' Approve '', classList = [''btn''], disabled = False,
      data_id = Some ''42'', data_action = ''approved''\<rparr>"

text \<open>A page whose deposit form has a submit button with another label.\<close>

definition relabelled_page :: page where
  "relabelled_page =
     session_page\<lparr>submitButton := Some (idle_submit\<lparr>textContent := ''Deposit Funds''\<rparr>)\<rparr>"

section \<open>Basic facts\<close>

lemma get_prop_None_iff: "get_prop v k = None \<longleftrightarrow> v = JUndefined \<or> v = JNull"
  by (cases v) simp_all

text \<open>The byte sequences that \<open>trim\<close> removes are the UTF-8 of the code points listed.\<close>

lemma white_space_utf8: "white_space = map utf8 white_space_code_points"
  by code_simp

lemma showNotification_Thrown:
  "showNotification m t p = Thrown q \<Longrightarrow>
     q = p \<and> notifications p \<noteq> None \<and> \<not> close_button_found p (to_string m)"
  by (auto simp: showNotification_def split: option.splits if_splits)

lemma showNotification_Completed:
  "showNotification m t p = Completed q \<Longrightarrow>
     submitButton q = submitButton p \<and> depositResult q = depositResult p
     \<and> markup_keeps_button q = markup_keeps_button p
     \<and> (case notifications p of
          None \<Rightarrow> q = p
        | Some ns \<Rightarrow>
            close_button_found p (to_string m)
            \<and> notifications q = Some (ns @ [(to_string m, t)]))"
  by (auto simp: showNotification_def setTimeout_def split: option.splits if_splits)

lemma showNotification_plain:
  "CHR ''<'' \<notin> set (to_string m) \<Longrightarrow> \<exists>q. showNotification m t p = Completed q"
  by (simp add: showNotification_def close_button_found_def split: option.splits)

lemma close_button_found_console_error:
  "close_button_found (console_error tag p) msg = close_button_found p msg"
  by (simp add: close_button_found_def console_error_def)

lemma close_button_found_shared_headers_after:
  "close_button_found (shared_headers_after opts p) msg = close_button_found p msg"
  by (simp add: close_button_found_def shared_headers_after_def split: option.splits)

lemma shared_headers_after_notifications:
  "notifications (shared_headers_after opts p) = notifications p"
  by (simp add: shared_headers_after_def split: option.splits)

lemma sublist_last_part: "sublist k (pre @ a @ mid @ k)"
proof -
  have "pre @ a @ mid @ k = (pre @ a @ mid) @ k @ []" by simp
  then show ?thesis by (metis sublist_appendI)
qed

section \<open>Logout\<close>

text \<open>
  C1 (as the specification states it, refuted): for every outcome of the logout call,
  also a transport failure, the handler clears both storage keys, expires the cookie and
  navigates to the login page. When \<^verbatim>\<open>fetch\<close> rejects, control passes to the
  \<^verbatim>\<open>catch\<close> block, which only logs: on a page holding the session \<open>abc\<close> both storage
  keys are still there afterwards, no cookie was written and no navigation was requested.
\<close>

theorem logout_network_failure_counterexample:
  "getItem (localStorage (logoutButton_click session_page NetworkError)) ''access_token''
     = Some ''abc''
   \<and> getItem (localStorage (logoutButton_click session_page NetworkError)) ''token_type''
     = Some ''Bearer''
   \<and> cookieWrites (logoutButton_click session_page NetworkError) = []
   \<and> location_href (logoutButton_click session_page NetworkError) = None"
  by (simp add: logoutButton_click_def logoutButton_start_def logoutButton_resume_def
        console_error_def session_page_def session_storage_def getItem_def)

text \<open>
  C1 (amended): whenever the logout call yields a response, whatever its status and
  body, the handler removes \<^verbatim>\<open>access_token\<close> and \<^verbatim>\<open>token_type\<close> from storage, writes the
  expired \<^verbatim>\<open>access_token\<close> cookie and navigates to \<^verbatim>\<open>/login\<close>; when the call is
  rejected, storage, cookie and location are left as they were.
\<close>

theorem logout_on_response:
  "getItem (localStorage (logoutButton_click p (Response ok parsed))) ''access_token'' = None
   \<and> getItem (localStorage (logoutButton_click p (Response ok parsed))) ''token_type'' = None
   \<and> cookieWrites (logoutButton_click p (Response ok parsed))
       = cookieWrites p @ [''access_token=; path=/; expires=Thu, 01 Jan 1970 00:00:00 GMT'']
   \<and> location_href (logoutButton_click p (Response ok parsed)) = Some ''/login''
   \<and> localStorage (logoutButton_click p NetworkError) = localStorage p
   \<and> cookieWrites (logoutButton_click p NetworkError) = cookieWrites p
   \<and> location_href (logoutButton_click p NetworkError) = location_href p"
  by (simp add: logoutButton_click_def logoutButton_start_def logoutButton_resume_def
        console_error_def getItem_def removeItem_def logout_cookie_def)

section \<open>The authentication injection paths\<close>

text \<open>
  Where the caller supplied no (non-empty) \<^verbatim>\<open>Authorization\<close> header, the wrapper and the
  listener produce the same header object: the same prefix check, the same construction.
\<close>

lemma injection_paths_agree_without_supplied_header:
  "\<not> truthy_str (hs ''Authorization'') \<Longrightarrow>
     headers (window_fetch st path (options\<lparr>headers := Some hs\<rparr>))
       = Some (htmx_configRequest st path hs)"
  by (simp add: window_fetch_def htmx_configRequest_def Let_def)

text \<open>
  C2 (the code departs from the claim): both paths are to leave an \<^verbatim>\<open>Authorization\<close>
  header of the caller alone. With the session \<open>abc\<close> stored and a request to
  \<^verbatim>\<open>/api/transfer\<close> that already carries \<^verbatim>\<open>Authorization: Basic dXNlcg==\<close>, the
  \<^verbatim>\<open>htmx:configRequest\<close> listener replaces the header by \<^verbatim>\<open>Bearer abc\<close>, where the rule
  of the specification and the \<^verbatim>\<open>fetch\<close> wrapper both keep the caller's header.
\<close>

theorem htmx_overwrites_supplied_authorization:
  "htmx_configRequest session_storage ''/api/transfer''
       [''Authorization'' \<mapsto> ''Basic dXNlcg==''] ''Authorization''
     = Some ''Bearer abc''
   \<and> spec_auth_headers session_storage ''/api/transfer''
       [''Authorization'' \<mapsto> ''Basic dXNlcg==''] ''Authorization''
     = Some ''Basic dXNlcg==''
   \<and> authorization_of (window_fetch session_storage ''/api/transfer''
        (no_options\<lparr>headers := Some [''Authorization'' \<mapsto> ''Basic dXNlcg=='']\<rparr>))
     = Some ''Basic dXNlcg==''"
  by (simp add: htmx_configRequest_def spec_auth_headers_def window_fetch_def
        authorization_of_def session_storage_def getItem_def truthy_str_def auth_header_def
        show_item_def no_options_def)

text \<open>
  C3 (as the specification states it, refuted): every request to a path under
  \<^verbatim>\<open>/api/\<close> carries the credential built from the storage contents at the time of the
  request. The transfer form passes the header object captured when the page loaded, and
  the wrapper keeps a header the caller supplies: on a page loaded under the session
  \<open>abc\<close>, after the stored token has become \<open>xyz\<close>, the transfer request still carries
  \<^verbatim>\<open>Bearer abc\<close>.
\<close>

theorem stale_credential_counterexample:
  "authorization_of (snd (snd (transferForm_start (Some ''bob'') (Whole 5) stale_page)))
     = Some ''Bearer abc''
   \<and> auth_header (getItem (localStorage stale_page) ''token_type'')
        (getItem (localStorage stale_page) ''access_token'') = ''Bearer xyz''"
  by (simp add: transferForm_start_def stale_page_def session_page_def session_storage_def
        capture_headers_def json_headers_def window_fetch_def authorization_of_def
        getItem_def truthy_str_def auth_header_def show_item_def Let_def)

text \<open>
  C3 (amended): a request through the wrapped \<^verbatim>\<open>fetch\<close> to a path beginning with
  \<^verbatim>\<open>/api/\<close>, while \<^verbatim>\<open>access_token\<close> and \<^verbatim>\<open>token_type\<close> are both stored and non-empty,
  goes out with an \<^verbatim>\<open>Authorization\<close> header: the caller's own when the caller supplied a
  non-empty one, otherwise \<^verbatim>\<open><tokenType> <token>\<close> from the storage contents at that
  moment. The transfer form supplies the header object captured at page load. A request
  to a path that does not begin with \<^verbatim>\<open>/api/\<close> is passed on unchanged.
\<close>

theorem window_fetch_authorization:
  "(startsWith url ''/api/'' \<and> truthy_str (getItem st ''access_token'')
      \<and> truthy_str (getItem st ''token_type'') \<longrightarrow>
      authorization_of (window_fetch st url options)
        = (if truthy_str (authorization_of options) then authorization_of options
           else Some (auth_header (getItem st ''token_type'') (getItem st ''access_token''))))
   \<and> (truthy_str (getItem (localStorage p) ''access_token'')
      \<and> truthy_str (getItem (localStorage p) ''token_type'') \<longrightarrow>
      authorization_of (snd (snd (transferForm_start receiver amount p)))
        = (if truthy_str (api_headers p ''Authorization'') then api_headers p ''Authorization''
           else Some (auth_header (getItem (localStorage p) ''token_type'')
                        (getItem (localStorage p) ''access_token''))))
   \<and> (\<not> startsWith url ''/api/'' \<longrightarrow> window_fetch st url options = options)"
  by (auto simp: window_fetch_def transferForm_start_def authorization_of_def Let_def
        truthy_str_def split: option.splits)

theorem window_fetch_authorization_witness:
  "authorization_of (window_fetch session_storage ''/api/deposit'' no_options)
     = Some ''Bearer abc''
   \<and> authorization_of (snd (snd (transferForm_start (Some ''bob'') (Whole 5) stale_page)))
     = Some ''Bearer abc''
   \<and> window_fetch session_storage ''/auth/logout'' no_options = no_options"
  using window_fetch_authorization
          [of "''/api/deposit''" session_storage no_options stale_page "Some ''bob''" "Whole 5"]
        window_fetch_authorization
          [of "''/auth/logout''" session_storage no_options stale_page "Some ''bob''" "Whole 5"]
  by (simp add: session_storage_def stale_page_def session_page_def capture_headers_def
        json_headers_def getItem_def truthy_str_def auth_header_def show_item_def
        authorization_of_def no_options_def)

text \<open>
  C10: both injection paths add an \<^verbatim>\<open>Authorization\<close> header only when
  \<^verbatim>\<open>access_token\<close> and \<^verbatim>\<open>token_type\<close> are both in storage: when either is missing, the
  wrapper passes the \<^verbatim>\<open>options\<close> on as they are and the listener leaves the header
  object as it is.
\<close>

theorem interceptors_need_both_items:
  "getItem st ''access_token'' = None \<or> getItem st ''token_type'' = None \<Longrightarrow>
     window_fetch st url options = options \<and> htmx_configRequest st path hs = hs"
  by (auto simp: window_fetch_def htmx_configRequest_def truthy_str_def Let_def)

theorem interceptors_need_both_items_witness:
  "window_fetch [''access_token'' \<mapsto> ''abc''] ''/api/transfer'' no_options = no_options
   \<and> htmx_configRequest [''access_token'' \<mapsto> ''abc''] ''/api/transfer'' json_headers
       = json_headers"
  using interceptors_need_both_items
          [of "[''access_token'' \<mapsto> ''abc'']" "''/api/transfer''" no_options
              "''/api/transfer''" json_headers]
  by (simp add: getItem_def)

section \<open>Registration\<close>

text \<open>
  C6: a registration submission whose password differs from the confirmation issues no
  network call and, on a page that has the error region, leaves it showing
  \<^verbatim>\<open>Passwords do not match\<close> (text set, class \<^verbatim>\<open>hidden\<close> removed); a request is sent
  only when the two fields are equal.
\<close>

theorem register_mismatch_sends_nothing:
  "(password \<noteq> passwordConfirm \<longrightarrow>
      snd (registerForm_start username password passwordConfirm p) = None
      \<and> (registerError p \<noteq> None \<longrightarrow>
           map_option textContent
             (registerError (fst (registerForm_start username password passwordConfirm p)))
             = Some ''Passwords do not match''
           \<and> map_option (\<lambda>e. ''hidden'' \<in> set (classList e))
               (registerError (fst (registerForm_start username password passwordConfirm p)))
             = Some False))
   \<and> (snd (registerForm_start username password passwordConfirm p) \<noteq> None \<longrightarrow>
        password = passwordConfirm)"
  by (auto simp: registerForm_start_def Let_def show_message_def classList_remove_def)

theorem register_mismatch_sends_nothing_witness:
  "snd (registerForm_start (Some ''alice'') (Some ''pw1'') (Some ''pw2'') anonymous_page) = None
   \<and> map_option textContent
        (registerError (fst (registerForm_start (Some ''alice'') (Some ''pw1'') (Some ''pw2'')
           anonymous_page)))
      = Some ''Passwords do not match''
   \<and> snd (registerForm_start (Some ''alice'') (Some ''pw1'') (Some ''pw1'') anonymous_page) \<noteq> None"
  using register_mismatch_sends_nothing
          [of "Some ''pw1''" "Some ''pw2''" "Some ''alice''" anonymous_page]
  by (simp add: anonymous_page_def registerForm_start_def Let_def)

section \<open>Login\<close>

text \<open>
  C7: on a response that is \<^verbatim>\<open>ok\<close> and whose body holds the strings \<^verbatim>\<open>access_token\<close>
  and \<^verbatim>\<open>token_type\<close>, the login handler stores both under those keys, writes the cookie
  with \<^verbatim>\<open>max-age=604800\<close> when the remember-me box is checked and \<^verbatim>\<open>max-age=86400\<close>
  otherwise, and navigates to \<^verbatim>\<open>/dashboard\<close>. The witness is the scenario of the
  specification: user \<open>alice\<close>, body \<^verbatim>\<open>{access_token: "abc", token_type: "Bearer"}\<close>.
\<close>

theorem login_success_stores_session:
  "get_prop data ''access_token'' = Some (JStr token) \<Longrightarrow>
   get_prop data ''token_type'' = Some (JStr tokenType) \<Longrightarrow>
     getItem (localStorage (loginForm_submit username password remember_me p
        (Response True (Some data)))) ''access_token'' = Some token
   \<and> getItem (localStorage (loginForm_submit username password remember_me p
        (Response True (Some data)))) ''token_type'' = Some tokenType
   \<and> cookieWrites (loginForm_submit username password remember_me p (Response True (Some data)))
       = cookieWrites p @
           [''access_token=Bearer '' @ token @ ''; path=/; max-age=''
              @ (if remember_me = Some ''on'' then ''604800'' else ''86400'')
              @ ''; SameSite=Lax'']
   \<and> location_href (loginForm_submit username password remember_me p
        (Response True (Some data))) = Some ''/dashboard''"
  by (simp add: loginForm_submit_def loginForm_start_def loginForm_resume_def Let_def
        getItem_def setItem_def login_cookie_def)

theorem login_success_stores_session_witness:
  "getItem (localStorage (loginForm_submit (Some ''alice'') (Some ''pw1'') None anonymous_page
      (Response True (Some (JObject [(''access_token'', JStr ''abc''),
                                     (''token_type'', JStr ''Bearer'')])))))
      ''access_token'' = Some ''abc''
   \<and> getItem (localStorage (loginForm_submit (Some ''alice'') (Some ''pw1'') None anonymous_page
      (Response True (Some (JObject [(''access_token'', JStr ''abc''),
                                     (''token_type'', JStr ''Bearer'')])))))
      ''token_type'' = Some ''Bearer''
   \<and> cookieWrites (loginForm_submit (Some ''alice'') (Some ''pw1'') None anonymous_page
      (Response True (Some (JObject [(''access_token'', JStr ''abc''),
                                     (''token_type'', JStr ''Bearer'')]))))
      = [''access_token=Bearer abc; path=/; max-age=86400; SameSite=Lax'']
   \<and> location_href (loginForm_submit (Some ''alice'') (Some ''pw1'') None anonymous_page
      (Response True (Some (JObject [(''access_token'', JStr ''abc''),
                                     (''token_type'', JStr ''Bearer'')]))))
      = Some ''/dashboard''"
  using login_success_stores_session
          [of "JObject [(''access_token'', JStr ''abc''), (''token_type'', JStr ''Bearer'')]"
              "''abc''" "''Bearer''" "Some ''alice''" "Some ''pw1''" None anonymous_page]
  by (simp add: anonymous_page_def)

text \<open>
  C9: the cookie written on a successful login is the literal \<^verbatim>\<open>Bearer\<close>, a space and
  the access token, whatever \<^verbatim>\<open>token_type\<close> the server returned: two bodies with the
  same access token yield the same cookie. The returned \<^verbatim>\<open>token_type\<close> goes into the
  storage entry, from where the injection paths read it.
\<close>

theorem login_cookie_prefix_fixed:
  "get_prop data ''access_token'' = Some token \<Longrightarrow>
   get_prop data ''token_type'' = Some tokenType \<Longrightarrow>
     cookieWrites (loginForm_resume rememberMe p (Response True (Some data)))
       = cookieWrites p @
           [''access_token=Bearer '' @ to_string token @ ''; path=/; max-age=''
              @ (if rememberMe then ''604800'' else ''86400'') @ ''; SameSite=Lax'']
   \<and> getItem (localStorage (loginForm_resume rememberMe p (Response True (Some data))))
        ''token_type'' = Some (to_string tokenType)
   \<and> (\<forall>other. get_prop other ''access_token'' = Some token \<longrightarrow>
          cookieWrites (loginForm_resume rememberMe p (Response True (Some other)))
            = cookieWrites (loginForm_resume rememberMe p (Response True (Some data))))"
  by (auto simp: loginForm_resume_def getItem_def setItem_def login_cookie_def
        get_prop_None_iff split: option.splits)

theorem login_cookie_prefix_fixed_witness:
  "cookieWrites (loginForm_resume False anonymous_page
      (Response True (Some (JObject [(''access_token'', JStr ''abc''),
                                     (''token_type'', JStr ''MAC'')]))))
     = [''access_token=Bearer abc; path=/; max-age=86400; SameSite=Lax'']
   \<and> getItem (localStorage (loginForm_resume False anonymous_page
      (Response True (Some (JObject [(''access_token'', JStr ''abc''),
                                     (''token_type'', JStr ''MAC'')])))))
        ''token_type'' = Some ''MAC''"
  using login_cookie_prefix_fixed
          [of "JObject [(''access_token'', JStr ''abc''), (''token_type'', JStr ''MAC'')]"
              "JStr ''abc''" "JStr ''MAC''" False anonymous_page]
  by (simp add: anonymous_page_def)

section \<open>Deposit form\<close>

lemma depositForm_start_button:
  assumes "submitButton p = Some b"
  shows "snd (depositForm_start amount p) \<noteq> None"
    and "map_option disabled (submitButton (fst (depositForm_start amount p))) = Some True"
    and "map_option textContent (submitButton (fst (depositForm_start amount p)))
           = Some ''Processing...''"
  using assms
  by (auto simp: depositForm_start_def Let_def shared_headers_after_def classList_add_def
        classList_remove_def split: option.splits)

lemma reenable_submit_props:
  "\<not> disabled (reenable_submit b)" "textContent (reenable_submit b) = ''Request Deposit''"
  by (simp_all add: reenable_submit_def Let_def classList_add_def classList_remove_def)

text \<open>The message of the \<^verbatim>\<open>catch\<close> block is plain text, so the block always completes.\<close>

lemma depositForm_catch_button:
  "map_option disabled (submitButton (state_of (depositForm_catch p)))
     = map_option (\<lambda>b. False) (submitButton p)"
  "map_option textContent (submitButton (state_of (depositForm_catch p)))
     = map_option (\<lambda>b. ''Request Deposit'') (submitButton p)"
  by (auto simp: depositForm_catch_def showNotification_def close_button_found_def
        setTimeout_def console_error_def reenable_submit_props option.map_comp comp_def
        split: option.splits)

lemma depositForm_try_Thrown:
  "depositForm_try amount p outcome = Thrown q \<Longrightarrow> submitButton q = submitButton p"
  by (auto simp: depositForm_try_def
        dest!: showNotification_Thrown showNotification_Completed
        split: fetch_outcome.splits option.splits if_splits completion.splits)

lemma depositForm_try_Completed:
  "depositForm_try amount p outcome = Completed q \<Longrightarrow>
     (failed outcome \<longrightarrow>
        map_option disabled (submitButton q) = map_option (\<lambda>b. False) (submitButton p)
        \<and> map_option textContent (submitButton q)
            = map_option (\<lambda>b. ''Request Deposit'') (submitButton p))
     \<and> (map_option disabled (submitButton q) = map_option (\<lambda>b. False) (submitButton p)
        \<or> (3000, Reload) \<in> set (timers q))"
  by (auto simp: depositForm_try_def failed_def setTimeout_def reenable_submit_props
        option.map_comp comp_def
        dest!: showNotification_Completed
        split: fetch_outcome.splits option.splits if_splits completion.splits)

lemma depositForm_resume_failed:
  assumes "failed outcome"
  shows "map_option disabled (submitButton (depositForm_resume amount p outcome))
           = map_option (\<lambda>b. False) (submitButton p)"
    and "map_option textContent (submitButton (depositForm_resume amount p outcome))
           = map_option (\<lambda>b. ''Request Deposit'') (submitButton p)"
  using assms depositForm_try_Completed [of amount p outcome]
        depositForm_try_Thrown [of amount p outcome]
  by (auto simp: depositForm_resume_def depositForm_catch_button split: completion.splits)

lemma depositForm_resume_terminal:
  "map_option disabled (submitButton (depositForm_resume amount p outcome))
           = map_option (\<lambda>b. False) (submitButton p)
   \<or> (3000, Reload) \<in> set (timers (depositForm_resume amount p outcome))"
  using depositForm_try_Completed [of amount p outcome]
        depositForm_try_Thrown [of amount p outcome]
  by (auto simp: depositForm_resume_def depositForm_catch_button split: completion.splits)

text \<open>
  C4 (as the specification states it, refuted): after a failure the submit control is
  re-enabled with its original label. The handler does not keep the label; it writes the
  text \<^verbatim>\<open>Request Deposit\<close>. A button that read \<^verbatim>\<open>Deposit Funds\<close> before the submission
  reads \<^verbatim>\<open>Request Deposit\<close> after a rejected call.
\<close>

theorem deposit_label_counterexample:
  "map_option textContent (submitButton relabelled_page) = Some ''Deposit Funds''
   \<and> map_option textContent
        (submitButton (depositForm_submit (Whole 250) relabelled_page NetworkError))
      = Some ''Request Deposit''"
  using depositForm_resume_failed(2)
          [of NetworkError "Whole 250" "fst (depositForm_start (Whole 250) relabelled_page)"]
        depositForm_start_button(1,3) [of relabelled_page _ "Whole 250"]
  by (auto simp: depositForm_submit_def relabelled_page_def session_page_def idle_submit_def
        failed_def split: prod.splits option.splits)

text \<open>
  C4 (amended): on a page whose deposit form has its submit button: when the request
  goes out the button is already disabled and reads \<^verbatim>\<open>Processing...\<close>; after any failure
  (rejected call, unparsable body, response that is not \<^verbatim>\<open>ok\<close>) it is enabled again and
  its label is the fixed text \<^verbatim>\<open>Request Deposit\<close>; and after any outcome whatsoever it is
  either enabled again or the page reload that replaces it has been scheduled, 3 seconds
  ahead.
\<close>

theorem deposit_submit_button_lifecycle:
  assumes "submitButton p = Some b"
  shows "snd (depositForm_start amount p) \<noteq> None
     \<and> map_option disabled (submitButton (fst (depositForm_start amount p))) = Some True
     \<and> map_option textContent (submitButton (fst (depositForm_start amount p)))
         = Some ''Processing...''
     \<and> (failed outcome \<longrightarrow>
          map_option disabled (submitButton (depositForm_submit amount p outcome)) = Some False
          \<and> map_option textContent (submitButton (depositForm_submit amount p outcome))
              = Some ''Request Deposit'')
     \<and> (map_option disabled (submitButton (depositForm_submit amount p outcome)) = Some False
        \<or> (3000, Reload) \<in> set (timers (depositForm_submit amount p outcome)))"
proof -
  obtain p1 req where st: "depositForm_start amount p = (p1, Some req)"
    using depositForm_start_button(1) [OF assms, of amount]
    by (cases "depositForm_start amount p") auto
  have sub: "depositForm_submit amount p outcome = depositForm_resume amount p1 outcome"
    by (simp add: depositForm_submit_def st)
  have btn: "submitButton p1 \<noteq> None"
    using depositForm_start_button(2) [OF assms, of amount] st by auto
  have fail: "failed outcome \<Longrightarrow>
      map_option disabled (submitButton (depositForm_resume amount p1 outcome)) = Some False
      \<and> map_option textContent (submitButton (depositForm_resume amount p1 outcome))
          = Some ''Request Deposit''"
    using depositForm_resume_failed [of outcome amount p1] btn by auto
  have fin: "map_option disabled (submitButton (depositForm_resume amount p1 outcome)) = Some False
      \<or> (3000, Reload) \<in> set (timers (depositForm_resume amount p1 outcome))"
    using depositForm_resume_terminal [of amount p1 outcome] btn by auto
  show ?thesis
    using depositForm_start_button [OF assms, of amount] fail fin sub by simp
qed

theorem deposit_submit_button_lifecycle_witness:
  "snd (depositForm_start (Whole 250) session_page) \<noteq> None
   \<and> map_option disabled (submitButton (fst (depositForm_start (Whole 250) session_page)))
       = Some True
   \<and> map_option textContent (submitButton (fst (depositForm_start (Whole 250) session_page)))
       = Some ''Processing...''
   \<and> map_option disabled (submitButton (depositForm_submit (Whole 250) session_page NetworkError))
       = Some False
   \<and> map_option textContent
         (submitButton (depositForm_submit (Whole 250) session_page NetworkError))
       = Some ''Request Deposit''"
  using deposit_submit_button_lifecycle [of session_page idle_submit "Whole 250" NetworkError]
  by (simp add: session_page_def failed_def)

lemma panel_cheque_text:
  "sublist ''Cheque Number: CHQ-1001''
     (rendered_text (deposit_result_html (JStr ''CHQ-1001'') (Whole 250)))"
  by code_simp

lemma panel_amount_text:
  "sublist ''$250.00'' (rendered_text (deposit_result_html (JStr ''CHQ-1001'') (Whole 250)))"
  by code_simp

lemma panel_pdf_link:
  "sublist (''<a href='' @ [CHR 0x22] @ ''/api/deposit/CHQ-1001/pdf'' @ [CHR 0x22])
     (deposit_result_html (JStr ''CHQ-1001'') (Whole 250))"
  by code_simp

lemma depositForm_success_panel:
  assumes "submitButton p \<noteq> None" and "depositResult p \<noteq> None"
    and "get_prop data ''cheque_number'' = Some chequeNumber"
  shows "depositResult (depositForm_submit amount p (Response True (Some data)))
           = Some (deposit_result_html chequeNumber amount)"
  using assms
  by (auto simp: depositForm_submit_def depositForm_start_def depositForm_resume_def
        depositForm_try_def Let_def shared_headers_after_def showNotification_def
        close_button_found_def setTimeout_def
        split: option.splits)

text \<open>
  C8: a deposit of 250 answered by an \<^verbatim>\<open>ok\<close> response with the body
  \<^verbatim>\<open>{cheque_number: "CHQ-1001"}\<close>, on a page that has the submit button and the result
  container, leaves the container with markup whose text contains
  \<^verbatim>\<open>Cheque Number: CHQ-1001\<close> and \<^verbatim>\<open>$250.00\<close> and which holds a link to
  \<^verbatim>\<open>/api/deposit/CHQ-1001/pdf\<close>.
\<close>

theorem deposit_result_panel_scenario:
  "submitButton p \<noteq> None \<Longrightarrow> depositResult p \<noteq> None \<Longrightarrow>
     (case depositResult (depositForm_submit (Whole 250) p
              (Response True (Some (JObject [(''cheque_number'', JStr ''CHQ-1001'')])))) of
        None \<Rightarrow> False
      | Some html \<Rightarrow>
          sublist ''Cheque Number: CHQ-1001'' (rendered_text html)
          \<and> sublist ''$250.00'' (rendered_text html)
          \<and> sublist (''<a href='' @ [CHR 0x22] @ ''/api/deposit/CHQ-1001/pdf'' @ [CHR 0x22]) html)"
  using depositForm_success_panel
          [of p "JObject [(''cheque_number'', JStr ''CHQ-1001'')]" "JStr ''CHQ-1001''" "Whole 250"]
        panel_cheque_text panel_amount_text panel_pdf_link
  by simp

theorem deposit_result_panel_scenario_witness:
  "(case depositResult (depositForm_submit (Whole 250) session_page
              (Response True (Some (JObject [(''cheque_number'', JStr ''CHQ-1001'')])))) of
        None \<Rightarrow> False
      | Some html \<Rightarrow>
          sublist ''Cheque Number: CHQ-1001'' (rendered_text html)
          \<and> sublist ''$250.00'' (rendered_text html)
          \<and> sublist (''<a href='' @ [CHR 0x22] @ ''/api/deposit/CHQ-1001/pdf'' @ [CHR 0x22]) html)"
  using deposit_result_panel_scenario [of session_page]
  by (simp add: session_page_def)


section \<open>Admin action buttons\<close>

lemma deposit_fallbacks_name_kind_and_action:
  "sublist action (''Failed to '' @ action @ '' deposit'')
   \<and> sublist ''deposit'' (''Failed to '' @ action @ '' deposit'')
   \<and> sublist action (''An error occurred while '' @ action @ ''ing deposit'')
   \<and> sublist ''deposit'' (''An error occurred while '' @ action @ ''ing deposit'')"
proof -
  have "sublist ''deposit'' (''Failed to '' @ action @ '' deposit'')"
    using sublist_last_part [of "''deposit''" "''Failed to ''" action "'' ''"] by simp
  moreover have "sublist ''deposit'' (''An error occurred while '' @ action @ ''ing deposit'')"
    using sublist_last_part [of "''deposit''" "''An error occurred while ''" action "''ing ''"]
    by simp
  ultimately show ?thesis
    by (intro conjI sublist_appendI)
qed

lemma withdrawal_fallbacks_name_kind_and_action:
  "sublist action (''Failed to '' @ action @ '' withdrawal'')
   \<and> sublist ''withdrawal'' (''Failed to '' @ action @ '' withdrawal'')
   \<and> sublist action (''An error occurred while '' @ action @ ''ing withdrawal'')
   \<and> sublist ''withdrawal'' (''An error occurred while '' @ action @ ''ing withdrawal'')"
proof -
  have "sublist ''withdrawal'' (''Failed to '' @ action @ '' withdrawal'')"
    using sublist_last_part [of "''withdrawal''" "''Failed to ''" action "'' ''"] by simp
  moreover have "sublist ''withdrawal'' (''An error occurred while '' @ action @ ''ing withdrawal'')"
    using sublist_last_part [of "''withdrawal''" "''An error occurred while ''" action "''ing ''"]
    by simp
  ultimately show ?thesis
    by (intro conjI sublist_appendI)
qed

lemma depositButton_click_unfold:
  "\<not> disabled this \<Longrightarrow>
     depositButton_click this p outcome =
       depositButton_resume (trim (textContent this)) (data_action this)
         (this\<lparr>disabled := True, textContent := ''Processing...''\<rparr>)
         (shared_headers_after
            (window_fetch (localStorage p)
               (''/api/admin/deposit/'' @ show_data (data_id this) @ ''/status'')
               \<lparr>request_method = Some ''POST'', headers = Some (api_headers p),
                body = Some (JObject [(''status'', JStr (data_action this))])\<rparr>) p)
         outcome"
  by (simp add: depositButton_click_def depositButton_start_def Let_def)

lemma depositButton_resume_failed:
  assumes "failed outcome" and "CHR ''<'' \<notin> set action"
  shows "\<not> disabled (fst (depositButton_resume orig action b p outcome))"
    and "textContent (fst (depositButton_resume orig action b p outcome)) = orig"
    and "notifications p = Some ns \<Longrightarrow>
          \<exists>msg. notifications (snd (depositButton_resume orig action b p outcome))
                  = Some (ns @ [(msg, ''error'')])
            \<and> (case server_detail outcome of
                  Some d \<Rightarrow>
                    if close_button_found p (to_string d) then msg = to_string d
                    else sublist action msg \<and> sublist ''deposit'' msg
                | None \<Rightarrow> sublist action msg \<and> sublist ''deposit'' msg)"
  using assms deposit_fallbacks_name_kind_and_action [of action]
  by (auto simp: depositButton_resume_def depositButton_try_def depositButton_catch_def
        failed_def server_detail_def showNotification_def close_button_found_def
        setTimeout_def console_error_def js_or_def get_prop_None_iff
        split: fetch_outcome.splits option.splits if_splits)

lemma withdrawalButton_click_unfold:
  "\<not> disabled this \<Longrightarrow>
     withdrawalButton_click this p outcome =
       withdrawalButton_resume (trim (textContent this)) (data_action this)
         (this\<lparr>disabled := True, textContent := ''Processing...''\<rparr>)
         (shared_headers_after
            (window_fetch (localStorage p)
               (''/api/admin/withdraw/'' @ show_data (data_id this) @ ''/status'')
               \<lparr>request_method = Some ''POST'', headers = Some (api_headers p),
                body = Some (JObject [(''status'', JStr (data_action this))])\<rparr>) p)
         outcome"
  by (simp add: withdrawalButton_click_def withdrawalButton_start_def Let_def)

lemma withdrawalButton_resume_failed:
  assumes "failed outcome" and "CHR ''<'' \<notin> set action"
  shows "\<not> disabled (fst (withdrawalButton_resume orig action b p outcome))"
    and "textContent (fst (withdrawalButton_resume orig action b p outcome)) = orig"
    and "notifications p = Some ns \<Longrightarrow>
          \<exists>msg. notifications (snd (withdrawalButton_resume orig action b p outcome))
                  = Some (ns @ [(msg, ''error'')])
            \<and> (case server_detail outcome of
                  Some d \<Rightarrow>
                    if close_button_found p (to_string d) then msg = to_string d
                    else sublist action msg \<and> sublist ''withdrawal'' msg
                | None \<Rightarrow> sublist action msg \<and> sublist ''withdrawal'' msg)"
  using assms withdrawal_fallbacks_name_kind_and_action [of action]
  by (auto simp: withdrawalButton_resume_def withdrawalButton_try_def withdrawalButton_catch_def
        failed_def server_detail_def showNotification_def close_button_found_def
        setTimeout_def console_error_def js_or_def get_prop_None_iff
        split: fetch_outcome.splits option.splits if_splits)

lemma depositButton_click_notifies:
  assumes "\<not> disabled this" and "failed outcome" and "CHR ''<'' \<notin> set (data_action this)"
    and "notifications p = Some ns"
  shows "\<exists>msg. notifications (snd (depositButton_click this p outcome))
                 = Some (ns @ [(msg, ''error'')])
           \<and> (case server_detail outcome of
                 Some d \<Rightarrow>
                   if close_button_found p (to_string d) then msg = to_string d
                   else sublist (data_action this) msg \<and> sublist ''deposit'' msg
               | None \<Rightarrow> sublist (data_action this) msg \<and> sublist ''deposit'' msg)"
proof -
  define p1 where "p1 = shared_headers_after
            (window_fetch (localStorage p)
               (''/api/admin/deposit/'' @ show_data (data_id this) @ ''/status'')
               \<lparr>request_method = Some ''POST'', headers = Some (api_headers p),
                body = Some (JObject [(''status'', JStr (data_action this))])\<rparr>) p"
  have n: "notifications p1 = Some ns"
    by (simp add: p1_def shared_headers_after_notifications assms(4))
  have c: "close_button_found p1 = close_button_found p"
    by (rule ext) (simp add: p1_def close_button_found_shared_headers_after)
  have "depositButton_click this p outcome =
          depositButton_resume (trim (textContent this)) (data_action this)
            (this\<lparr>disabled := True, textContent := ''Processing...''\<rparr>) p1 outcome"
    unfolding p1_def by (rule depositButton_click_unfold [OF assms(1)])
  then show ?thesis
    using depositButton_resume_failed(3)
            [OF assms(2,3) n, where orig = "trim (textContent this)"
               and b = "this\<lparr>disabled := True, textContent := ''Processing...''\<rparr>",
             unfolded c]
    by simp
qed

lemma withdrawalButton_click_notifies:
  assumes "\<not> disabled this" and "failed outcome" and "CHR ''<'' \<notin> set (data_action this)"
    and "notifications p = Some ns"
  shows "\<exists>msg. notifications (snd (withdrawalButton_click this p outcome))
                 = Some (ns @ [(msg, ''error'')])
           \<and> (case server_detail outcome of
                 Some d \<Rightarrow>
                   if close_button_found p (to_string d) then msg = to_string d
                   else sublist (data_action this) msg \<and> sublist ''withdrawal'' msg
               | None \<Rightarrow> sublist (data_action this) msg \<and> sublist ''withdrawal'' msg)"
proof -
  define p1 where "p1 = shared_headers_after
            (window_fetch (localStorage p)
               (''/api/admin/withdraw/'' @ show_data (data_id this) @ ''/status'')
               \<lparr>request_method = Some ''POST'', headers = Some (api_headers p),
                body = Some (JObject [(''status'', JStr (data_action this))])\<rparr>) p"
  have n: "notifications p1 = Some ns"
    by (simp add: p1_def shared_headers_after_notifications assms(4))
  have c: "close_button_found p1 = close_button_found p"
    by (rule ext) (simp add: p1_def close_button_found_shared_headers_after)
  have "withdrawalButton_click this p outcome =
          withdrawalButton_resume (trim (textContent this)) (data_action this)
            (this\<lparr>disabled := True, textContent := ''Processing...''\<rparr>) p1 outcome"
    unfolding p1_def by (rule withdrawalButton_click_unfold [OF assms(1)])
  then show ?thesis
    using withdrawalButton_resume_failed(3)
            [OF assms(2,3) n, where orig = "trim (textContent this)"
               and b = "this\<lparr>disabled := True, textContent := ''Processing...''\<rparr>",
             unfolded c]
    by simp
qed

lemma action_button_start_disabled:
  "disabled this \<Longrightarrow>
     depositButton_start this p = (this, p, None) \<and> withdrawalButton_start this p = (this, p, None)"
  by (simp add: depositButton_start_def withdrawalButton_start_def)

lemma trim_approve: "trim '' Approve '' = ''Approve''"
  by code_simp

lemma approve_clicked:
  "depositButton_click approve_button session_page
     (Response False (Some (JObject [(''detail'', JStr ''Not authenticated'')])))
   = (approve_button\<lparr>textContent := ''Approve''\<rparr>,
      session_page\<lparr>notifications := Some [(''Not authenticated'', ''error'')],
                   timers := [(5000, FadeNotification 0)]\<rparr>)"
  by (simp add: depositButton_click_def depositButton_start_def depositButton_resume_def
        depositButton_try_def approve_button_def session_page_def session_storage_def
        capture_headers_def json_headers_def window_fetch_def shared_headers_after_def
        showNotification_def close_button_found_def setTimeout_def js_or_def trim_approve
        getItem_def truthy_str_def auth_header_def show_item_def show_data_def Let_def)

text \<open>
  C5 (as the specification states it, refuted): on a failure response the original
  label is restored and a notification naming the resource kind and the action is shown.
  The button labelled \<^verbatim>\<open>Approve\<close> with a blank on either side, for deposit 42, answered
  by a response that is not \<^verbatim>\<open>ok\<close> with \<^verbatim>\<open>{detail: "Not authenticated"}\<close>: the
  notification is the server's text, which names neither the deposit nor the action, and
  the label comes back trimmed.
\<close>

theorem admin_failure_notification_counterexample:
  "notifications (snd (depositButton_click approve_button session_page
      (Response False (Some (JObject [(''detail'', JStr ''Not authenticated'')])))))
     = Some [(''Not authenticated'', ''error'')]
   \<and> \<not> sublist ''deposit'' ''Not authenticated''
   \<and> \<not> sublist ''approved'' ''Not authenticated''
   \<and> textContent approve_button = '' Approve ''
   \<and> textContent (fst (depositButton_click approve_button session_page
      (Response False (Some (JObject [(''detail'', JStr ''Not authenticated'')])))))
     = ''Approve''"
proof -
  have "\<not> sublist ''deposit'' ''Not authenticated''"
    and "\<not> sublist ''approved'' ''Not authenticated''"
    by code_simp+
  moreover have "textContent approve_button = '' Approve ''"
    by (simp add: approve_button_def)
  ultimately show ?thesis
    by (simp add: approve_clicked)
qed

text \<open>
  C5 (amended): for the deposit and the withdrawal buttons alike, a click on a disabled
  button changes nothing and issues no request. For a button whose action text holds no
  \<^verbatim>\<open><\<close> (as \<^verbatim>\<open>approved\<close> and \<^verbatim>\<open>rejected\<close> do not): after a failure the button is enabled
  again and its label is the original text with the white space at both ends trimmed;
  and on a page with a notification container an error notification is appended, which
  is the server's \<^verbatim>\<open>detail\<close> when the body has a truthy one whose markup leaves the
  banner its close button (plain text always does), and otherwise a fallback that names
  the action and the resource kind.
\<close>

theorem admin_button_guard_and_failure:
  "(disabled this \<longrightarrow>
      depositButton_start this p = (this, p, None)
      \<and> withdrawalButton_start this p = (this, p, None))
   \<and> (\<not> disabled this \<and> failed outcome \<and> CHR ''<'' \<notin> set (data_action this) \<longrightarrow>
        \<not> disabled (fst (depositButton_click this p outcome))
        \<and> textContent (fst (depositButton_click this p outcome)) = trim (textContent this)
        \<and> \<not> disabled (fst (withdrawalButton_click this p outcome))
        \<and> textContent (fst (withdrawalButton_click this p outcome)) = trim (textContent this))
   \<and> (\<not> disabled this \<and> failed outcome \<and> CHR ''<'' \<notin> set (data_action this)
        \<and> notifications p = Some ns \<longrightarrow>
        (\<exists>msg. notifications (snd (depositButton_click this p outcome))
                 = Some (ns @ [(msg, ''error'')])
           \<and> (case server_detail outcome of
                 Some d \<Rightarrow>
                   if close_button_found p (to_string d) then msg = to_string d
                   else sublist (data_action this) msg \<and> sublist ''deposit'' msg
               | None \<Rightarrow> sublist (data_action this) msg \<and> sublist ''deposit'' msg))
        \<and> (\<exists>msg. notifications (snd (withdrawalButton_click this p outcome))
                 = Some (ns @ [(msg, ''error'')])
           \<and> (case server_detail outcome of
                 Some d \<Rightarrow>
                   if close_button_found p (to_string d) then msg = to_string d
                   else sublist (data_action this) msg \<and> sublist ''withdrawal'' msg
               | None \<Rightarrow> sublist (data_action this) msg \<and> sublist ''withdrawal'' msg)))"
proof (intro conjI impI)
  assume "disabled this"
  then show "depositButton_start this p = (this, p, None)"
    and "withdrawalButton_start this p = (this, p, None)"
    by (simp_all add: action_button_start_disabled)
next
  assume h: "\<not> disabled this \<and> failed outcome \<and> CHR ''<'' \<notin> set (data_action this)"
  then show "\<not> disabled (fst (depositButton_click this p outcome))"
    and "textContent (fst (depositButton_click this p outcome)) = trim (textContent this)"
    and "\<not> disabled (fst (withdrawalButton_click this p outcome))"
    and "textContent (fst (withdrawalButton_click this p outcome)) = trim (textContent this)"
    by (simp_all add: depositButton_click_unfold withdrawalButton_click_unfold
          depositButton_resume_failed withdrawalButton_resume_failed)
next
  assume h: "\<not> disabled this \<and> failed outcome \<and> CHR ''<'' \<notin> set (data_action this)
        \<and> notifications p = Some ns"
  then show "\<exists>msg. notifications (snd (depositButton_click this p outcome))
                 = Some (ns @ [(msg, ''error'')])
           \<and> (case server_detail outcome of
                 Some d \<Rightarrow>
                   if close_button_found p (to_string d) then msg = to_string d
                   else sublist (data_action this) msg \<and> sublist ''deposit'' msg
               | None \<Rightarrow> sublist (data_action this) msg \<and> sublist ''deposit'' msg)"
    by (simp add: depositButton_click_notifies)
  from h show "\<exists>msg. notifications (snd (withdrawalButton_click this p outcome))
                 = Some (ns @ [(msg, ''error'')])
           \<and> (case server_detail outcome of
                 Some d \<Rightarrow>
                   if close_button_found p (to_string d) then msg = to_string d
                   else sublist (data_action this) msg \<and> sublist ''withdrawal'' msg
               | None \<Rightarrow> sublist (data_action this) msg \<and> sublist ''withdrawal'' msg)"
    by (simp add: withdrawalButton_click_notifies)
qed

theorem admin_button_guard_and_failure_witness:
  "depositButton_start (approve_button\<lparr>disabled := True\<rparr>) session_page
     = (approve_button\<lparr>disabled := True\<rparr>, session_page, None)
   \<and> withdrawalButton_start (approve_button\<lparr>disabled := True\<rparr>) session_page
     = (approve_button\<lparr>disabled := True\<rparr>, session_page, None)
   \<and> \<not> disabled (fst (depositButton_click approve_button session_page NetworkError))
   \<and> textContent (fst (depositButton_click approve_button session_page NetworkError))
       = ''Approve''
   \<and> (\<exists>msg. notifications (snd (depositButton_click approve_button session_page NetworkError))
               = Some [(msg, ''error'')]
         \<and> sublist ''approved'' msg \<and> sublist ''deposit'' msg)"
  using admin_button_guard_and_failure
          [of "approve_button\<lparr>disabled := True\<rparr>" session_page NetworkError "[]"]
        admin_button_guard_and_failure [of approve_button session_page NetworkError "[]"]
        trim_approve
  by (simp add: approve_button_def session_page_def failed_def server_detail_def)

end
